theory Spec2Isabelle
  imports
    Complex_Main
    "HOL-Library.Multiset"
    "HOL-Library.Sublist"
    "HOL-Library.Char_ord"
    "HOL-Library.List_Lexorder"
begin

section \<open>The LCV dispatch heuristic of api.py\<close>

text \<open>
  The development embeds \<^verbatim>\<open>run_lcv_optimization\<close> of \<^verbatim>\<open>api.py\<close> from line 97 on:
  the sort of the selected rows, the construction of the fleet and of the availability
  dictionary, the greedy assignment loop, and the six-stage simulation with the
  formatting of the two result arrays. The lines before (reading the workbook, parsing
  the date, the three filters and their 404 answers) only prepare the inputs taken
  here: the rows of \<^verbatim>\<open>requests_to_process_df\<close>, the column \<^verbatim>\<open>df['lcv_id']\<close>, and
  \<^verbatim>\<open>start_date\<close>.
\<close>

subsection \<open>Values\<close>

text \<open>
  A \<^verbatim>\<open>datetime\<close> is the number of microseconds since 0001-01-01 00:00:00, from
  \<^verbatim>\<open>datetime.min\<close> (0) to \<^verbatim>\<open>datetime.max\<close> (9999-12-31 23:59:59.999999). Adding a
  \<^verbatim>\<open>timedelta\<close> that leaves this range raises \<^verbatim>\<open>OverflowError\<close>. (The creation
  timestamps are pandas \<^verbatim>\<open>Timestamp\<close>s, a subclass of \<^verbatim>\<open>datetime\<close> with a narrower
  range; the embedding takes the range of \<^verbatim>\<open>datetime\<close> for all of them.)
\<close>

datatype error = OverflowError | TypeError | KeyError

type_synonym datetime = int

definition datetime_min :: datetime where
  "datetime_min = 0"

definition datetime_max :: datetime where
  "datetime_max = 315537897599999999"

text \<open>\<^verbatim>\<open>timedelta(minutes=n)\<close> for an integer \<open>n\<close>, in microseconds.\<close>

definition minutes :: "int \<Rightarrow> int" where
  "minutes n = n * 60000000"

definition add_timedelta :: "datetime \<Rightarrow> int \<Rightarrow> error + datetime" where
  "add_timedelta t d =
     (if datetime_min \<le> t + d \<and> t + d \<le> datetime_max then Inr (t + d)
      else Inl OverflowError)"

text \<open>
  \<^verbatim>\<open>datetime.combine(start_date, datetime.min.time())\<close>: midnight of the day, the date
  being counted in days since 0001-01-01.
\<close>

definition midnight :: "nat \<Rightarrow> datetime" where
  "midnight start_date = int start_date * 86400000000"

text \<open>
  \<^verbatim>\<open>int(x)\<close> truncates towards zero. The duration and the distance of a row are finite
  numbers (rows with a missing value are dropped when the workbook is read); every
  finite float is a rational, so they are rationals here.
\<close>

definition py_int :: "rat \<Rightarrow> int" where
  "py_int x = (if 0 \<le> x then \<lfloor>x\<rfloor> else \<lceil>x\<rceil>)"

text \<open>
  A vehicle identifier is a cell of the \<^verbatim>\<open>lcv_id\<close> column, which the loader leaves as
  the workbook has it (only \<^verbatim>\<open>request_id\<close> is converted to \<^verbatim>\<open>str\<close>): an integer or a
  string. \<open>truthy\<close> is Python's truth test on it: false on 0 and on the empty string.
\<close>

datatype lcv_id = IntId int | StrId string

fun truthy :: "lcv_id \<Rightarrow> bool" where
  "truthy (IntId n) = (n \<noteq> 0)"
| "truthy (StrId s) = (s \<noteq> [])"


text \<open>The keys of a row that the code reads after line 97.\<close>

record request =
  request_id :: string
  create_date :: datetime
  duration :: rat
  distance :: rat
  route_id :: string

text \<open>An element of \<^verbatim>\<open>final_schedule\<close>.\<close>

record assignment =
  request :: request
  assigned_lcv :: lcv_id
  start_time :: datetime
  completion_time :: datetime

text \<open>The entries of the two result arrays, with the source's keys.\<close>

record schedule_entry =
  Request_ID :: string
  Assigned_LCV_ID :: lcv_id
  Historical_Route_ID :: string
  Historical_Distance_km :: string
  Historical_Duration_min :: string
  Start_Time :: string
  Completion_Time :: string

record timeline_entry =
  TL_Request_ID :: string
  LCV_ID :: lcv_id
  Stage1_Enters_MGS :: string
  Stage2_Starts_Filling :: string
  Stage3_Filled :: string
  Stage4_Enters_DBS :: string
  Stage5_Starts_Emptying :: string
  Stage6_Emptied :: string

record results =
  optimal_schedule :: "schedule_entry list"
  simulation_timeline :: "timeline_entry list"

subsection \<open>The library calls\<close>

text \<open>
  Three library calls are taken as parameters: \<^verbatim>\<open>DataFrame.sort_values(by='create_date')\<close>
  followed by \<^verbatim>\<open>to_dict('records')\<close>, \<^verbatim>\<open>strftime('%Y-%m-%d %H:%M:%S')\<close>, and the
  format \<^verbatim>\<open>:.2f\<close>.
\<close>

record pylib =
  sort_values_by_create_date :: "request list \<Rightarrow> request list"
  strftime :: "datetime \<Rightarrow> string"
  format_2f :: "rat \<Rightarrow> string"

text \<open>
  What \<^verbatim>\<open>sort_values\<close> promises with its default \<^verbatim>\<open>kind='quicksort'\<close>: the rows, each
  once, in ascending order of the key. It does not promise the order of rows with equal
  keys (only \<^verbatim>\<open>kind='mergesort'\<close> and \<^verbatim>\<open>kind='stable'\<close> do).
\<close>

definition sort_values_contract :: "request list \<Rightarrow> request list \<Rightarrow> bool" where
  "sort_values_contract rows out \<longleftrightarrow>
     mset out = mset rows \<and> sorted (map create_date out)"

text \<open>
  The random source is the sequence of raw values it will produce from its present
  state on; a draw takes the first and leaves the rest.
  \<^verbatim>\<open>timedelta(minutes=random.uniform(0, 5))\<close> is a whole number of microseconds from 0 to
  300000000 (five minutes); \<^verbatim>\<open>random.randint(a, b)\<close> is an integer from \<open>a\<close> to \<open>b\<close>,
  both included.
\<close>

type_synonym rng = "nat \<Rightarrow> nat"

definition uniform_0_5_minutes :: "rng \<Rightarrow> int \<times> rng" where
  "uniform_0_5_minutes g = (int (g 0 mod 300000001), \<lambda>i. g (Suc i))"

definition randint :: "int \<Rightarrow> int \<Rightarrow> rng \<Rightarrow> int \<times> rng" where
  "randint a b g = (a + int (g 0 mod nat (b - a + 1)), \<lambda>i. g (Suc i))"

subsection \<open>The fleet\<close>

text \<open>
  \<^verbatim>\<open>Series.unique()\<close> keeps the first occurrence of each value, in order of appearance.
\<close>

fun unique_from :: "'a list \<Rightarrow> 'a list \<Rightarrow> 'a list" where
  "unique_from seen [] = []"
| "unique_from seen (x # xs) =
     (if x \<in> set seen then unique_from seen xs else x # unique_from (x # seen) xs)"

definition unique :: "'a list \<Rightarrow> 'a list" where
  "unique xs = unique_from [] xs"

text \<open>
  \<^verbatim>\<open>sorted\<close> on a list of identifiers: integers among themselves, strings among
  themselves (by code point); comparing an integer with a string raises \<^verbatim>\<open>TypeError\<close>.
\<close>

fun int_ids :: "lcv_id list \<Rightarrow> int list option" where
  "int_ids [] = Some []"
| "int_ids (IntId n # xs) = map_option ((#) n) (int_ids xs)"
| "int_ids (StrId s # xs) = None"

fun str_ids :: "lcv_id list \<Rightarrow> string list option" where
  "str_ids [] = Some []"
| "str_ids (StrId s # xs) = map_option ((#) s) (str_ids xs)"
| "str_ids (IntId n # xs) = None"

definition py_sorted :: "lcv_id list \<Rightarrow> error + lcv_id list" where
  "py_sorted xs =
     (case int_ids xs of
        Some ns \<Rightarrow> Inr (map IntId (sort ns))
      | None \<Rightarrow>
          (case str_ids xs of
             Some ss \<Rightarrow> Inr (map StrId (sort ss))
           | None \<Rightarrow> Inl TypeError))"

text \<open>Line 101: every vehicle of the fleet is free from midnight.\<close>

definition initial_availability :: "lcv_id list \<Rightarrow> nat \<Rightarrow> (lcv_id \<rightharpoonup> datetime)" where
  "initial_availability all_lcvs start_date =
     map_of (map (\<lambda>lcv. (lcv, midnight start_date)) all_lcvs)"

subsection \<open>The assignment loop\<close>

text \<open>
  The inner loop (lines 110 to 120) over the vehicles still to examine. The accumulator
  is \<^verbatim>\<open>earliest_stochastic_completion_time\<close> with \<^verbatim>\<open>best_lcv\<close>, \<^verbatim>\<open>best_start_time\<close> and
  \<^verbatim>\<open>best_completion_time\<close>, the last three \<^verbatim>\<open>None\<close> together until a vehicle is taken.
\<close>

type_synonym best = "(lcv_id \<times> datetime \<times> datetime) option"

fun select_lcv ::
  "(lcv_id \<rightharpoonup> datetime) \<Rightarrow> request \<Rightarrow> lcv_id list \<Rightarrow> datetime \<times> best \<Rightarrow> rng
     \<Rightarrow> error + ((datetime \<times> best) \<times> rng)" where
  "select_lcv lcv_availability req [] acc g = Inr (acc, g)"
| "select_lcv lcv_availability req (lcv # lcvs) (earliest, best) g =
     (case lcv_availability lcv of
        None \<Rightarrow> Inl KeyError
      | Some available \<Rightarrow>
          (let current_lcv_start_time = max available (create_date req);
               route_duration = py_int (duration req)
           in (case add_timedelta current_lcv_start_time (minutes route_duration) of
                 Inl e \<Rightarrow> Inl e
               | Inr current_lcv_completion_time \<Rightarrow>
                   (let (jitter, g') = uniform_0_5_minutes g
                    in (case add_timedelta current_lcv_completion_time jitter of
                          Inl e \<Rightarrow> Inl e
                        | Inr stochastic_completion_time \<Rightarrow>
                            (if stochastic_completion_time < earliest
                             then select_lcv lcv_availability req lcvs
                                    (stochastic_completion_time,
                                     Some (lcv, current_lcv_start_time,
                                           current_lcv_completion_time)) g'
                             else select_lcv lcv_availability req lcvs
                                    (earliest, best) g'))))))"

text \<open>
  The body of the outer loop (lines 105 to 129). \<^verbatim>\<open>if best_lcv:\<close> is a truth test: it
  fails on \<^verbatim>\<open>None\<close> and on an identifier that is 0 or the empty string.
\<close>

type_synonym sched_state = "(lcv_id \<rightharpoonup> datetime) \<times> assignment list \<times> rng"

definition assign_request :: "lcv_id list \<Rightarrow> request \<Rightarrow> sched_state \<Rightarrow> error + sched_state" where
  "assign_request all_lcvs req st =
     (case st of (lcv_availability, final_schedule, g) \<Rightarrow>
        (case select_lcv lcv_availability req all_lcvs (datetime_max, None) g of
           Inl e \<Rightarrow> Inl e
         | Inr ((earliest, best), g') \<Rightarrow>
             (case best of
                None \<Rightarrow> Inr (lcv_availability, final_schedule, g')
              | Some (best_lcv, best_start_time, best_completion_time) \<Rightarrow>
                  if truthy best_lcv
                  then Inr (lcv_availability(best_lcv \<mapsto> best_completion_time),
                            final_schedule @
                              [\<lparr>request = req, assigned_lcv = best_lcv,
                                start_time = best_start_time,
                                completion_time = best_completion_time\<rparr>],
                            g')
                  else Inr (lcv_availability, final_schedule, g'))))"

fun assign_requests :: "lcv_id list \<Rightarrow> request list \<Rightarrow> sched_state \<Rightarrow> error + sched_state" where
  "assign_requests all_lcvs [] st = Inr st"
| "assign_requests all_lcvs (req # reqs) st =
     (case assign_request all_lcvs req st of
        Inl e \<Rightarrow> Inl e
      | Inr st' \<Rightarrow> assign_requests all_lcvs reqs st')"

subsection \<open>The six-stage simulation and the result arrays\<close>

text \<open>Lines 155 to 160: the six stage times of one assignment, before formatting.\<close>

definition stage_times ::
  "assignment \<Rightarrow> rng \<Rightarrow> error + (datetime list \<times> rng)" where
  "stage_times a g =
     (let route_duration = py_int (duration (request a));
          stage1_time = start_time a;
          (d2, g2) = randint 4 6 g
      in (case add_timedelta stage1_time (minutes d2) of
            Inl e \<Rightarrow> Inl e
          | Inr stage2_time \<Rightarrow>
              (let (d3, g3) = randint 28 32 g2
               in (case add_timedelta stage2_time (minutes d3) of
                     Inl e \<Rightarrow> Inl e
                   | Inr stage3_time \<Rightarrow>
                       (case add_timedelta stage3_time (minutes route_duration) of
                          Inl e \<Rightarrow> Inl e
                        | Inr stage4_time \<Rightarrow>
                            (let (d5, g5) = randint 4 6 g3
                             in (case add_timedelta stage4_time (minutes d5) of
                                   Inl e \<Rightarrow> Inl e
                                 | Inr stage5_time \<Rightarrow>
                                     (let (d6, g6) = randint 28 32 g5
                                      in (case add_timedelta stage5_time (minutes d6) of
                                            Inl e \<Rightarrow> Inl e
                                          | Inr stage6_time \<Rightarrow>
                                              Inr ([stage1_time, stage2_time, stage3_time,
                                                    stage4_time, stage5_time, stage6_time],
                                                   g6))))))))))"

definition schedule_entry_of :: "pylib \<Rightarrow> assignment \<Rightarrow> schedule_entry" where
  "schedule_entry_of lib a =
     \<lparr>Request_ID = request_id (request a),
      Assigned_LCV_ID = assigned_lcv a,
      Historical_Route_ID = route_id (request a),
      Historical_Distance_km = format_2f lib (distance (request a)),
      Historical_Duration_min = format_2f lib (duration (request a)),
      Start_Time = strftime lib (start_time a),
      Completion_Time = strftime lib (completion_time a)\<rparr>"

definition timeline_entry_of :: "pylib \<Rightarrow> assignment \<Rightarrow> datetime list \<Rightarrow> timeline_entry" where
  "timeline_entry_of lib a ts =
     \<lparr>TL_Request_ID = request_id (request a),
      LCV_ID = assigned_lcv a,
      Stage1_Enters_MGS = strftime lib (ts ! 0),
      Stage2_Starts_Filling = strftime lib (ts ! 1),
      Stage3_Filled = strftime lib (ts ! 2),
      Stage4_Enters_DBS = strftime lib (ts ! 3),
      Stage5_Starts_Emptying = strftime lib (ts ! 4),
      Stage6_Emptied = strftime lib (ts ! 5)\<rparr>"

text \<open>The loop of lines 137 to 173 over \<^verbatim>\<open>final_schedule\<close>.\<close>

fun simulate :: "pylib \<Rightarrow> assignment list \<Rightarrow> results \<Rightarrow> rng \<Rightarrow> error + (results \<times> rng)" where
  "simulate lib [] res g = Inr (res, g)"
| "simulate lib (a # as) res g =
     (case stage_times a g of
        Inl e \<Rightarrow> Inl e
      | Inr (ts, g') \<Rightarrow>
          simulate lib as
            \<lparr>optimal_schedule = optimal_schedule res @ [schedule_entry_of lib a],
             simulation_timeline = simulation_timeline res @ [timeline_entry_of lib a ts]\<rparr>
            g')"

subsection \<open>The whole run\<close>

definition all_lcvs_of :: "lcv_id list \<Rightarrow> error + lcv_id list" where
  "all_lcvs_of lcv_column = py_sorted (unique lcv_column)"

definition heuristic ::
  "pylib \<Rightarrow> request list \<Rightarrow> lcv_id list \<Rightarrow> nat \<Rightarrow> rng \<Rightarrow> error + sched_state" where
  "heuristic lib rows lcv_column start_date g =
     (let requests_to_process_sorted = sort_values_by_create_date lib rows
      in case all_lcvs_of lcv_column of
           Inl e \<Rightarrow> Inl e
         | Inr all_lcvs \<Rightarrow>
             assign_requests all_lcvs requests_to_process_sorted
               (initial_availability all_lcvs start_date, [], g))"

definition run_lcv_optimization ::
  "pylib \<Rightarrow> request list \<Rightarrow> lcv_id list \<Rightarrow> nat \<Rightarrow> rng \<Rightarrow> error + (results \<times> rng)" where
  "run_lcv_optimization lib rows lcv_column start_date g =
     (case heuristic lib rows lcv_column start_date g of
        Inl e \<Rightarrow> Inl e
      | Inr (lcv_availability, final_schedule, g') \<Rightarrow>
          simulate lib final_schedule
            \<lparr>optimal_schedule = [], simulation_timeline = []\<rparr> g')"

subsection \<open>Notions used in the statements\<close>

text \<open>
  The jittered score that the inner loop computes for the vehicle at position \<open>k\<close> of
  the fleet: its completion time plus the \<open>k\<close>-th draw of the random source.
\<close>

definition stochastic_completion_time ::
  "(lcv_id \<rightharpoonup> datetime) \<Rightarrow> request \<Rightarrow> lcv_id list \<Rightarrow> rng \<Rightarrow> nat \<Rightarrow> datetime" where
  "stochastic_completion_time lcv_availability req lcvs g k =
     max (the (lcv_availability (lcvs ! k))) (create_date req)
       + minutes (py_int (duration req)) + int (g k mod 300000001)"

text \<open>The gaps between the six stage times of an assignment.\<close>

definition stage_gaps :: "assignment \<Rightarrow> datetime list \<Rightarrow> bool" where
  "stage_gaps a ts \<longleftrightarrow>
     length ts = 6 \<and> ts ! 0 = start_time a \<and>
     ts ! 1 - ts ! 0 \<in> minutes ` {4..6} \<and>
     ts ! 2 - ts ! 1 \<in> minutes ` {28..32} \<and>
     ts ! 3 - ts ! 2 = minutes (py_int (duration (request a))) \<and>
     ts ! 4 - ts ! 3 \<in> minutes ` {4..6} \<and>
     ts ! 5 - ts ! 4 \<in> minutes ` {28..32} \<and>
     (0 \<le> duration (request a) \<longrightarrow> sorted ts)"

text \<open>
  What a computation hands back, without the state in which it leaves the random
  source.
\<close>

definition returned :: "error + 'a \<times> rng \<Rightarrow> error + 'a" where
  "returned r = map_sum id fst r"


subsection \<open>Concrete inputs\<close>

text \<open>
  A day (number 738000), two requests created at 08:00 of that day, and three states
  of the random source. \<open>example_lib\<close> sorts stably; \<open>reversing_lib\<close> also sorts every input in
  ascending order of the key, but leaves rows with equal keys in the reverse of their
  input order.
\<close>

definition example_request :: request where
  "example_request =
     \<lparr>request_id = ''R1'', create_date = 63763228800000000, duration = 30,
      distance = 12, route_id = ''A''\<rparr>"

definition example_request2 :: request where
  "example_request2 =
     \<lparr>request_id = ''R2'', create_date = 63763228800000000, duration = 41 / 2,
      distance = 7 / 2, route_id = ''B''\<rparr>"

definition example_assignment :: assignment where
  "example_assignment =
     \<lparr>request = example_request, assigned_lcv = IntId 1,
      start_time = 63763228800000000, completion_time = 63763230600000000\<rparr>"

definition example_assignment2 :: assignment where
  "example_assignment2 =
     \<lparr>request = example_request2, assigned_lcv = IntId 2,
      start_time = 63763228800000000, completion_time = 63763230000000000\<rparr>"

definition example_stages :: "datetime list" where
  "example_stages =
     [63763228800000000, 63763229040000000, 63763230720000000, 63763232520000000,
      63763232760000000, 63763234440000000]"

definition example_strftime :: "datetime \<Rightarrow> string" where
  "example_strftime t = (if t = 63763228800000000 then ''08:00'' else ''later'')"

definition example_format_2f :: "rat \<Rightarrow> string" where
  "example_format_2f x = (if x = 12 then ''12.00'' else ''other'')"

definition example_lib :: pylib where
  "example_lib =
     \<lparr>sort_values_by_create_date = sort_key create_date,
      strftime = example_strftime,
      format_2f = example_format_2f\<rparr>"

definition reversing_lib :: pylib where
  "reversing_lib =
     \<lparr>sort_values_by_create_date = (\<lambda>rows. rev (sort_key (\<lambda>r. - create_date r) rows)),
      strftime = example_strftime,
      format_2f = example_format_2f\<rparr>"

definition zero_rng :: rng where
  "zero_rng = (\<lambda>i. 0)"

definition late_first_rng :: rng where
  "late_first_rng = (\<lambda>i. if i = 0 then 7 else 0)"


section \<open>The assignment engine\<close>

subsection \<open>The scan of the fleet\<close>

lemma sct_Suc:
  "stochastic_completion_time av req (l # ls) g (Suc j) =
   stochastic_completion_time av req ls (\<lambda>i. g (Suc i)) j"
  by (simp add: stochastic_completion_time_def)

lemma add_timedelta_Inr: "add_timedelta t d = Inr r \<Longrightarrow> r = t + d"
  by (auto simp: add_timedelta_def split: if_splits)

lemma select_lcv_inv:
  "select_lcv av req ls (e0, b0) g = Inr ((e, b), g') \<Longrightarrow>
     g' = (\<lambda>i. g (i + length ls)) \<and>
     (\<forall>j<length ls. av (ls ! j) \<noteq> None) \<and>
     ((b = b0 \<and> e = e0 \<and> (\<forall>j<length ls. e0 \<le> stochastic_completion_time av req ls g j))
      \<or> (\<exists>i<length ls.
            b = Some (ls ! i, max (the (av (ls ! i))) (create_date req),
                      max (the (av (ls ! i))) (create_date req) + minutes (py_int (duration req))) \<and>
            e = stochastic_completion_time av req ls g i \<and> e < e0 \<and>
            (\<forall>j<length ls. e \<le> stochastic_completion_time av req ls g j) \<and>
            (\<forall>j<i. e < stochastic_completion_time av req ls g j)))"
proof (induction ls arbitrary: e0 b0 g)
  case Nil
  then show ?case by simp
next
  case (Cons l ls)
  from Cons.prems obtain a where a: "av l = Some a"
    by (auto split: option.splits)
  let ?s = "max a (create_date req)"
  let ?c = "?s + minutes (py_int (duration req))"
  let ?g = "\<lambda>i. g (Suc i)"
  let ?sc = "?c + int (g 0 mod 300000001)"
  have sc0: "stochastic_completion_time av req (l # ls) g 0 = ?sc"
    by (simp add: stochastic_completion_time_def a)
  from Cons.prems a have c: "add_timedelta ?s (minutes (py_int (duration req))) = Inr ?c"
    by (auto simp: Let_def split: sum.splits dest: add_timedelta_Inr)
  from Cons.prems a c have sc: "add_timedelta ?c (int (g 0 mod 300000001)) = Inr ?sc"
    by (auto simp: Let_def uniform_0_5_minutes_def split: sum.splits dest: add_timedelta_Inr)
  show ?case
  proof (cases "?sc < e0")
    case True
    with Cons.prems a c sc have rec: "select_lcv av req ls (?sc, Some (l, ?s, ?c)) ?g = Inr ((e, b), g')"
      by (simp add: Let_def uniform_0_5_minutes_def)
    from Cons.IH[OF rec] have g': "g' = (\<lambda>i. g (i + length (l # ls)))"
      and dom: "\<forall>j<length ls. av (ls ! j) \<noteq> None"
      and alt: "(b = Some (l, ?s, ?c) \<and> e = ?sc \<and> (\<forall>j<length ls. ?sc \<le> stochastic_completion_time av req ls ?g j))
      \<or> (\<exists>i<length ls.
            b = Some (ls ! i, max (the (av (ls ! i))) (create_date req),
                      max (the (av (ls ! i))) (create_date req) + minutes (py_int (duration req))) \<and>
            e = stochastic_completion_time av req ls ?g i \<and> e < ?sc \<and>
            (\<forall>j<length ls. e \<le> stochastic_completion_time av req ls ?g j) \<and>
            (\<forall>j<i. e < stochastic_completion_time av req ls ?g j))"
      by simp_all
    have dom': "\<forall>j<length (l # ls). av ((l # ls) ! j) \<noteq> None"
      using dom a by (simp add: less_Suc_eq_0_disj) auto
    from alt show ?thesis
    proof
      assume h: "b = Some (l, ?s, ?c) \<and> e = ?sc \<and> (\<forall>j<length ls. ?sc \<le> stochastic_completion_time av req ls ?g j)"
      have "0 < length (l # ls) \<and>
            b = Some ((l # ls) ! 0, max (the (av ((l # ls) ! 0))) (create_date req),
                      max (the (av ((l # ls) ! 0))) (create_date req) + minutes (py_int (duration req))) \<and>
            e = stochastic_completion_time av req (l # ls) g 0 \<and> e < e0 \<and>
            (\<forall>j<length (l # ls). e \<le> stochastic_completion_time av req (l # ls) g j) \<and>
            (\<forall>j<0. e < stochastic_completion_time av req (l # ls) g j)"
        using h True a by (simp add: sc0 less_Suc_eq_0_disj) (auto simp: sct_Suc)
      then show ?thesis using g' dom' by blast
    next
      assume "\<exists>i<length ls.
            b = Some (ls ! i, max (the (av (ls ! i))) (create_date req),
                      max (the (av (ls ! i))) (create_date req) + minutes (py_int (duration req))) \<and>
            e = stochastic_completion_time av req ls ?g i \<and> e < ?sc \<and>
            (\<forall>j<length ls. e \<le> stochastic_completion_time av req ls ?g j) \<and>
            (\<forall>j<i. e < stochastic_completion_time av req ls ?g j)"
      then obtain i where i: "i < length ls"
        "b = Some (ls ! i, max (the (av (ls ! i))) (create_date req),
                      max (the (av (ls ! i))) (create_date req) + minutes (py_int (duration req)))"
        "e = stochastic_completion_time av req ls ?g i" "e < ?sc"
        "\<forall>j<length ls. e \<le> stochastic_completion_time av req ls ?g j"
        "\<forall>j<i. e < stochastic_completion_time av req ls ?g j"
        by blast
      have "Suc i < length (l # ls) \<and>
            b = Some ((l # ls) ! Suc i, max (the (av ((l # ls) ! Suc i))) (create_date req),
                      max (the (av ((l # ls) ! Suc i))) (create_date req) + minutes (py_int (duration req))) \<and>
            e = stochastic_completion_time av req (l # ls) g (Suc i) \<and> e < e0 \<and>
            (\<forall>j<length (l # ls). e \<le> stochastic_completion_time av req (l # ls) g j) \<and>
            (\<forall>j<Suc i. e < stochastic_completion_time av req (l # ls) g j)"
        using i True by (auto simp: sc0 sct_Suc less_Suc_eq_0_disj)
      then show ?thesis using g' dom' by blast
    qed
  next
    case False
    with Cons.prems a c sc have rec: "select_lcv av req ls (e0, b0) ?g = Inr ((e, b), g')"
      by (simp add: Let_def uniform_0_5_minutes_def)
    from Cons.IH[OF rec] have g': "g' = (\<lambda>i. g (i + length (l # ls)))"
      and dom: "\<forall>j<length ls. av (ls ! j) \<noteq> None"
      and alt: "(b = b0 \<and> e = e0 \<and> (\<forall>j<length ls. e0 \<le> stochastic_completion_time av req ls ?g j))
      \<or> (\<exists>i<length ls.
            b = Some (ls ! i, max (the (av (ls ! i))) (create_date req),
                      max (the (av (ls ! i))) (create_date req) + minutes (py_int (duration req))) \<and>
            e = stochastic_completion_time av req ls ?g i \<and> e < e0 \<and>
            (\<forall>j<length ls. e \<le> stochastic_completion_time av req ls ?g j) \<and>
            (\<forall>j<i. e < stochastic_completion_time av req ls ?g j))"
      by simp_all
    have dom': "\<forall>j<length (l # ls). av ((l # ls) ! j) \<noteq> None"
      using dom a by (simp add: less_Suc_eq_0_disj) auto
    from alt show ?thesis
    proof
      assume h: "b = b0 \<and> e = e0 \<and> (\<forall>j<length ls. e0 \<le> stochastic_completion_time av req ls ?g j)"
      have "b = b0 \<and> e = e0 \<and> (\<forall>j<length (l # ls). e0 \<le> stochastic_completion_time av req (l # ls) g j)"
        using h False by (simp add: sc0 less_Suc_eq_0_disj) (auto simp: sct_Suc)
      then show ?thesis using g' dom' by blast
    next
      assume "\<exists>i<length ls.
            b = Some (ls ! i, max (the (av (ls ! i))) (create_date req),
                      max (the (av (ls ! i))) (create_date req) + minutes (py_int (duration req))) \<and>
            e = stochastic_completion_time av req ls ?g i \<and> e < e0 \<and>
            (\<forall>j<length ls. e \<le> stochastic_completion_time av req ls ?g j) \<and>
            (\<forall>j<i. e < stochastic_completion_time av req ls ?g j)"
      then obtain i where i: "i < length ls"
        "b = Some (ls ! i, max (the (av (ls ! i))) (create_date req),
                      max (the (av (ls ! i))) (create_date req) + minutes (py_int (duration req)))"
        "e = stochastic_completion_time av req ls ?g i" "e < e0"
        "\<forall>j<length ls. e \<le> stochastic_completion_time av req ls ?g j"
        "\<forall>j<i. e < stochastic_completion_time av req ls ?g j"
        by blast
      have "Suc i < length (l # ls) \<and>
            b = Some ((l # ls) ! Suc i, max (the (av ((l # ls) ! Suc i))) (create_date req),
                      max (the (av ((l # ls) ! Suc i))) (create_date req) + minutes (py_int (duration req))) \<and>
            e = stochastic_completion_time av req (l # ls) g (Suc i) \<and> e < e0 \<and>
            (\<forall>j<length (l # ls). e \<le> stochastic_completion_time av req (l # ls) g j) \<and>
            (\<forall>j<Suc i. e < stochastic_completion_time av req (l # ls) g j)"
        using i False by (auto simp: sc0 sct_Suc less_Suc_eq_0_disj)
      then show ?thesis using g' dom' by blast
    qed
  qed
qed








lemma select_lcv_first_min:
  assumes "select_lcv av req ls (datetime_max, None) g = Inr ((e, Some (v, s, c)), g')"
  shows "\<exists>i<length ls.
           v = ls ! i \<and> av v \<noteq> None \<and>
           s = max (the (av v)) (create_date req) \<and>
           c = s + minutes (py_int (duration req)) \<and>
           e = stochastic_completion_time av req ls g i \<and> e < datetime_max \<and>
           (\<forall>j<length ls. e \<le> stochastic_completion_time av req ls g j) \<and>
           (\<forall>j<i. e < stochastic_completion_time av req ls g j)"
  using select_lcv_inv [OF assms] by auto

lemma assign_request_cases:
  assumes "assign_request all_lcvs req (av, fs, g) = Inr (av', fs', g')"
  shows "(av' = av \<and> fs' = fs) \<or>
         (\<exists>e v s c. select_lcv av req all_lcvs (datetime_max, None) g = Inr ((e, Some (v, s, c)), g') \<and>
            truthy v \<and> av' = av(v \<mapsto> c) \<and>
            fs' = fs @ [\<lparr>request = req, assigned_lcv = v, start_time = s, completion_time = c\<rparr>])"
  using assms by (auto simp: assign_request_def split: sum.splits option.splits if_splits)



lemma assign_request_result:
  assumes "assign_request all_lcvs req (av, fs, g) = Inr (av', fs', g')"
  shows "(fs' = fs \<and> av' = av) \<or>
         (\<exists>lcv available. lcv \<in> set all_lcvs \<and> truthy lcv \<and> av lcv = Some available \<and>
            fs' = fs @ [\<lparr>request = req, assigned_lcv = lcv,
                          start_time = max available (create_date req),
                          completion_time = max available (create_date req)
                                              + minutes (py_int (duration req))\<rparr>] \<and>
            av' = av(lcv \<mapsto> max available (create_date req) + minutes (py_int (duration req))))"
  using assign_request_cases [OF assms]
proof
  assume "av' = av \<and> fs' = fs"
  then show ?thesis by simp
next
  assume "\<exists>e v s c. select_lcv av req all_lcvs (datetime_max, None) g = Inr ((e, Some (v, s, c)), g') \<and>
            truthy v \<and> av' = av(v \<mapsto> c) \<and>
            fs' = fs @ [\<lparr>request = req, assigned_lcv = v, start_time = s, completion_time = c\<rparr>]"
  then obtain e v s c where
    sel: "select_lcv av req all_lcvs (datetime_max, None) g = Inr ((e, Some (v, s, c)), g')"
    and rest: "truthy v" "av' = av(v \<mapsto> c)"
      "fs' = fs @ [\<lparr>request = req, assigned_lcv = v, start_time = s, completion_time = c\<rparr>]"
    by blast
  from select_lcv_first_min [OF sel] obtain i where
    i: "i < length all_lcvs" "v = all_lcvs ! i" "av v \<noteq> None"
       "s = max (the (av v)) (create_date req)" "c = s + minutes (py_int (duration req))"
    by blast
  from i(3) obtain available where av: "av v = Some available" by blast
  have "v \<in> set all_lcvs" using i(1,2) by simp
  with rest av i(4,5) show ?thesis by auto
qed

text \<open>
  C2. Processing a request either records nothing and leaves the tracker as it was, or
  records one assignment for a vehicle of the fleet whose start time is the maximum of
  that vehicle's availability before the step and the request's creation timestamp, and
  whose completion time is the start time plus the duration truncated to whole minutes;
  the tracker receives that same completion time. No draw of the random source occurs
  in the recorded values.
\<close>

theorem recorded_times_exact:
  assumes "assign_request all_lcvs req (lcv_availability, final_schedule, g) =
             Inr (lcv_availability', final_schedule', g')"
  shows "(final_schedule' = final_schedule \<and> lcv_availability' = lcv_availability) \<or>
         (\<exists>lcv available.
            lcv \<in> set all_lcvs \<and> lcv_availability lcv = Some available \<and>
            final_schedule' = final_schedule @
              [\<lparr>request = req, assigned_lcv = lcv,
                start_time = max available (create_date req),
                completion_time = max available (create_date req)
                                    + minutes (py_int (duration req))\<rparr>] \<and>
            lcv_availability' =
              lcv_availability(lcv \<mapsto> max available (create_date req)
                                          + minutes (py_int (duration req))))"
  using assign_request_result [OF assms] by blast

text \<open>
  C10. Processing one request appends at most one assignment. If none is appended the
  tracker is unchanged; if one is appended, the tracker is unchanged at every vehicle
  other than the one assigned.
\<close>

theorem tracker_frame:
  assumes "assign_request all_lcvs req (lcv_availability, final_schedule, g) =
             Inr (lcv_availability', final_schedule', g')"
  shows "(final_schedule' = final_schedule \<or> (\<exists>a. final_schedule' = final_schedule @ [a])) \<and>
         (final_schedule' = final_schedule \<longrightarrow> lcv_availability' = lcv_availability) \<and>
         (\<forall>a lcv. final_schedule' = final_schedule @ [a] \<longrightarrow> lcv \<noteq> assigned_lcv a \<longrightarrow>
            lcv_availability' lcv = lcv_availability lcv)"
  using assign_request_result [OF assms] by auto

text \<open>
  When every identifier of the fleet passes the truth test and some vehicle has a score
  below \<^verbatim>\<open>datetime.max\<close>, a step that returns records an assignment.
\<close>

lemma assign_request_records:
  assumes "assign_request all_lcvs req (av, fs, g) = Inr (av', fs', g')"
    and "\<forall>lcv\<in>set all_lcvs. truthy lcv"
    and "k < length all_lcvs"
    and "stochastic_completion_time av req all_lcvs g k < datetime_max"
  shows "\<exists>a. fs' = fs @ [a]"
proof -
  from assms(1) obtain e b where
    sel: "select_lcv av req all_lcvs (datetime_max, None) g = Inr ((e, b), g')"
    by (auto simp: assign_request_def split: sum.splits option.splits if_splits)
  from select_lcv_inv [OF sel] assms(3,4) obtain i where
    i: "i < length all_lcvs"
       "b = Some (all_lcvs ! i, max (the (av (all_lcvs ! i))) (create_date req),
                  max (the (av (all_lcvs ! i))) (create_date req)
                    + minutes (py_int (duration req)))"
    by fastforce
  from i(1) assms(2) have "truthy (all_lcvs ! i)" by simp
  with assms(1) sel i(2) show ?thesis
    by (auto simp: assign_request_def)
qed

lemma py_int_nonneg: "0 \<le> x \<Longrightarrow> 0 \<le> py_int x"
  by (simp add: py_int_def)

lemma minutes_nonneg: "0 \<le> n \<Longrightarrow> 0 \<le> minutes n"
  by (simp add: minutes_def)

lemma assign_request_mono:
  assumes "assign_request all_lcvs req (av, fs, g) = Inr (av', fs', g')"
    and "0 \<le> duration req" and "av lcv = Some t"
  shows "\<exists>t'. av' lcv = Some t' \<and> t \<le> t'"
  using assign_request_result [OF assms(1)] minutes_nonneg [OF py_int_nonneg [OF assms(2)]] assms(3)
  by (auto simp: max_def)

lemma assign_requests_mono:
  "assign_requests all_lcvs reqs (av, fs, g) = Inr (av', fs', g') \<Longrightarrow>
   \<forall>req\<in>set reqs. 0 \<le> duration req \<Longrightarrow> av lcv = Some t \<Longrightarrow>
   \<exists>t'. av' lcv = Some t' \<and> t \<le> t'"
proof (induction reqs arbitrary: av fs g t)
  case Nil
  then show ?case by simp
next
  case (Cons req reqs)
  from Cons.prems(1) obtain av1 fs1 g1 where
    step: "assign_request all_lcvs req (av, fs, g) = Inr (av1, fs1, g1)"
    and rest: "assign_requests all_lcvs reqs (av1, fs1, g1) = Inr (av', fs', g')"
    by (auto split: sum.splits)
  from assign_request_mono [OF step _ Cons.prems(3)] Cons.prems(2)
  obtain t1 where t1: "av1 lcv = Some t1" "t \<le> t1" by auto
  from Cons.IH [OF rest _ t1(1)] Cons.prems(2)
  obtain t' where "av' lcv = Some t'" "t1 \<le> t'" by auto
  with t1(2) show ?case by auto
qed

lemma assign_requests_append:
  "assign_requests all_lcvs (xs @ ys) st =
     (case assign_requests all_lcvs xs st of
        Inl e \<Rightarrow> Inl e
      | Inr st' \<Rightarrow> assign_requests all_lcvs ys st')"
  by (induction xs arbitrary: st) (auto split: sum.splits)

text \<open>
  A run that returns has processed each of its requests by one step, from the state the
  requests before it left; so what holds of a step from every state holds of every
  request of a run.
\<close>

lemma assign_requests_steps:
  assumes "assign_requests all_lcvs reqs st = Inr st'" and "k < length reqs"
  shows "\<exists>st1 st2.
           assign_requests all_lcvs (take k reqs) st = Inr st1 \<and>
           assign_request all_lcvs (reqs ! k) st1 = Inr st2 \<and>
           assign_requests all_lcvs (drop (Suc k) reqs) st2 = Inr st'"
proof -
  from assms(2) have "reqs = take k reqs @ reqs ! k # drop (Suc k) reqs"
    by (rule id_take_nth_drop)
  with assms(1) have
    "assign_requests all_lcvs (take k reqs @ reqs ! k # drop (Suc k) reqs) st = Inr st'"
    by simp
  then show ?thesis
    by (auto simp: assign_requests_append split: sum.splits)
qed

lemma assign_requests_last:
  "assign_requests all_lcvs reqs (av, fs, g) = Inr (av', fs', g') \<Longrightarrow>
   \<exists>new. fs' = fs @ new \<and>
     (\<forall>lcv. av' lcv =
        (if filter (\<lambda>a. assigned_lcv a = lcv) new = [] then av lcv
         else Some (completion_time (last (filter (\<lambda>a. assigned_lcv a = lcv) new)))))"
proof (induction reqs arbitrary: av fs g)
  case Nil
  then show ?case by simp
next
  case (Cons req reqs)
  from Cons.prems(1) obtain av1 fs1 g1 where
    step: "assign_request all_lcvs req (av, fs, g) = Inr (av1, fs1, g1)"
    and rest: "assign_requests all_lcvs reqs (av1, fs1, g1) = Inr (av', fs', g')"
    by (auto split: sum.splits)
  from Cons.IH [OF rest] obtain new2 where new2: "fs' = fs1 @ new2"
    "\<forall>lcv. av' lcv =
        (if filter (\<lambda>a. assigned_lcv a = lcv) new2 = [] then av1 lcv
         else Some (completion_time (last (filter (\<lambda>a. assigned_lcv a = lcv) new2))))"
    by blast
  from assign_request_result [OF step]
  have "\<exists>new1. fs1 = fs @ new1 \<and>
     (\<forall>lcv. av1 lcv =
        (if filter (\<lambda>a. assigned_lcv a = lcv) new1 = [] then av lcv
         else Some (completion_time (last (filter (\<lambda>a. assigned_lcv a = lcv) new1)))))"
  proof
    assume "fs1 = fs \<and> av1 = av"
    then have "fs1 = fs @ [] \<and>
     (\<forall>lcv. av1 lcv =
        (if filter (\<lambda>a. assigned_lcv a = lcv) [] = [] then av lcv
         else Some (completion_time (last (filter (\<lambda>a. assigned_lcv a = lcv) [])))))"
      by simp
    then show ?thesis by blast
  next
    assume "\<exists>lcv available. lcv \<in> set all_lcvs \<and> truthy lcv \<and> av lcv = Some available \<and>
            fs1 = fs @ [\<lparr>request = req, assigned_lcv = lcv,
                          start_time = max available (create_date req),
                          completion_time = max available (create_date req)
                                              + minutes (py_int (duration req))\<rparr>] \<and>
            av1 = av(lcv \<mapsto> max available (create_date req) + minutes (py_int (duration req)))"
    then obtain v available where
      fs1: "fs1 = fs @ [\<lparr>request = req, assigned_lcv = v,
                          start_time = max available (create_date req),
                          completion_time = max available (create_date req)
                                              + minutes (py_int (duration req))\<rparr>]"
      and av1: "av1 = av(v \<mapsto> max available (create_date req) + minutes (py_int (duration req)))"
      by blast
    show ?thesis
      by (rule exI [of _ "[\<lparr>request = req, assigned_lcv = v,
                          start_time = max available (create_date req),
                          completion_time = max available (create_date req)
                                              + minutes (py_int (duration req))\<rparr>]"])
         (simp add: fs1 av1)
  qed
  then obtain new1 where new1: "fs1 = fs @ new1"
    "\<forall>lcv. av1 lcv =
        (if filter (\<lambda>a. assigned_lcv a = lcv) new1 = [] then av lcv
         else Some (completion_time (last (filter (\<lambda>a. assigned_lcv a = lcv) new1))))"
    by blast
  show ?case
    by (rule exI [of _ "new1 @ new2"]) (simp add: new1 new2)
qed

lemma initial_availability_eq:
  "initial_availability all_lcvs d lcv = (if lcv \<in> set all_lcvs then Some (midnight d) else None)"
  by (induction all_lcvs) (auto simp: initial_availability_def)

text \<open>
  C3. In a run over requests with non-negative durations, started from the tracker in
  which every vehicle of the fleet is free from midnight: at the end every vehicle's
  availability is the completion time of the last assignment routed to it, or midnight
  if it received none; and the availability of every vehicle after any prefix of the
  requests is at least midnight and at most its availability at the end.
\<close>

theorem availability_monotone_and_last:
  assumes "assign_requests all_lcvs (pre @ post)
             (initial_availability all_lcvs start_date, [], g) =
             Inr (lcv_availability, final_schedule, g')"
    and "\<forall>req\<in>set (pre @ post). 0 \<le> duration req"
  shows "(\<forall>lcv\<in>set all_lcvs.
            lcv_availability lcv =
              Some (if filter (\<lambda>a. assigned_lcv a = lcv) final_schedule = []
                    then midnight start_date
                    else completion_time
                           (last (filter (\<lambda>a. assigned_lcv a = lcv) final_schedule)))) \<and>
         (\<exists>av1 fs1 g1.
            assign_requests all_lcvs pre (initial_availability all_lcvs start_date, [], g) =
              Inr (av1, fs1, g1) \<and>
            (\<forall>lcv\<in>set all_lcvs. \<exists>t1 t2.
               av1 lcv = Some t1 \<and> lcv_availability lcv = Some t2 \<and>
               midnight start_date \<le> t1 \<and> t1 \<le> t2))"
proof -
  let ?init = "(initial_availability all_lcvs start_date, [], g)"
  from assign_requests_last [OF assms(1)]
  have final: "\<forall>lcv\<in>set all_lcvs.
            lcv_availability lcv =
              Some (if filter (\<lambda>a. assigned_lcv a = lcv) final_schedule = []
                    then midnight start_date
                    else completion_time
                           (last (filter (\<lambda>a. assigned_lcv a = lcv) final_schedule)))"
    by (auto simp: initial_availability_eq)
  from assms(1) obtain av1 fs1 g1 where
    pre: "assign_requests all_lcvs pre ?init = Inr (av1, fs1, g1)"
    and post: "assign_requests all_lcvs post (av1, fs1, g1) = Inr (lcv_availability, final_schedule, g')"
    by (auto simp: assign_requests_append split: sum.splits)
  have "\<exists>t1 t2. av1 lcv = Some t1 \<and> lcv_availability lcv = Some t2 \<and>
               midnight start_date \<le> t1 \<and> t1 \<le> t2" if "lcv \<in> set all_lcvs" for lcv
  proof -
    have i: "initial_availability all_lcvs start_date lcv = Some (midnight start_date)"
      using that by (simp add: initial_availability_eq)
    from assign_requests_mono [OF pre _ i] assms(2)
    obtain t1 where t1: "av1 lcv = Some t1" "midnight start_date \<le> t1" by auto
    from assign_requests_mono [OF post _ t1(1)] assms(2)
    obtain t2 where "lcv_availability lcv = Some t2" "t1 \<le> t2" by auto
    with t1 show ?thesis by blast
  qed
  with final pre show ?thesis by blast
qed

section \<open>The simulation and the result arrays\<close>

lemma randint_4_6: "randint 4 6 g = (d, g') \<Longrightarrow> 4 \<le> d \<and> d \<le> 6 \<and> g' = (\<lambda>i. g (Suc i))"
  by (auto simp: randint_def)

lemma randint_28_32: "randint 28 32 g = (d, g') \<Longrightarrow> 28 \<le> d \<and> d \<le> 32 \<and> g' = (\<lambda>i. g (Suc i))"
  by (auto simp: randint_def)

lemma stage_times_Inr:
  assumes "stage_times a g = Inr (ts, g')"
  shows "\<exists>d2 d3 d5 d6.
           4 \<le> d2 \<and> d2 \<le> 6 \<and> 28 \<le> d3 \<and> d3 \<le> 32 \<and>
           4 \<le> d5 \<and> d5 \<le> 6 \<and> 28 \<le> d6 \<and> d6 \<le> 32 \<and>
           ts = [start_time a,
                 start_time a + minutes d2,
                 start_time a + minutes d2 + minutes d3,
                 start_time a + minutes d2 + minutes d3 + minutes (py_int (duration (request a))),
                 start_time a + minutes d2 + minutes d3 + minutes (py_int (duration (request a)))
                   + minutes d5,
                 start_time a + minutes d2 + minutes d3 + minutes (py_int (duration (request a)))
                   + minutes d5 + minutes d6] \<and>
           g' = (\<lambda>i. g (i + 4))"
proof -
  obtain d2 g2 where r2: "randint 4 6 g = (d2, g2)" by (cases "randint 4 6 g")
  obtain d3 g3 where r3: "randint 28 32 g2 = (d3, g3)" by (cases "randint 28 32 g2")
  obtain d5 g5 where r5: "randint 4 6 g3 = (d5, g5)" by (cases "randint 4 6 g3")
  obtain d6 g6 where r6: "randint 28 32 g5 = (d6, g6)" by (cases "randint 28 32 g5")
  note b = randint_4_6 [OF r2] randint_28_32 [OF r3] randint_4_6 [OF r5] randint_28_32 [OF r6]
  from assms have
    "ts = [start_time a,
                 start_time a + minutes d2,
                 start_time a + minutes d2 + minutes d3,
                 start_time a + minutes d2 + minutes d3 + minutes (py_int (duration (request a))),
                 start_time a + minutes d2 + minutes d3 + minutes (py_int (duration (request a)))
                   + minutes d5,
                 start_time a + minutes d2 + minutes d3 + minutes (py_int (duration (request a)))
                   + minutes d5 + minutes d6]" and "g' = g6"
    by (auto simp: stage_times_def Let_def r2 r3 r5 r6 split: sum.splits dest!: add_timedelta_Inr)
  moreover have "g6 = (\<lambda>i. g (i + 4))" using b by (simp add: numeral_eq_Suc)
  ultimately show ?thesis using b by blast
qed


lemma stage_times_gaps:
  assumes "stage_times a g = Inr (ts, g')"
  shows "stage_gaps a ts"
proof -
  from stage_times_Inr [OF assms] obtain d2 d3 d5 d6 where
    d: "4 \<le> d2" "d2 \<le> 6" "28 \<le> d3" "d3 \<le> 32" "4 \<le> d5" "d5 \<le> 6" "28 \<le> d6" "d6 \<le> 32"
    and ts: "ts = [start_time a,
                 start_time a + minutes d2,
                 start_time a + minutes d2 + minutes d3,
                 start_time a + minutes d2 + minutes d3 + minutes (py_int (duration (request a))),
                 start_time a + minutes d2 + minutes d3 + minutes (py_int (duration (request a)))
                   + minutes d5,
                 start_time a + minutes d2 + minutes d3 + minutes (py_int (duration (request a)))
                   + minutes d5 + minutes d6]"
    by blast
  have m: "0 \<le> minutes d2" "0 \<le> minutes d3" "0 \<le> minutes d5" "0 \<le> minutes d6"
    using d by (simp_all add: minutes_def)
  have r: "0 \<le> duration (request a) \<Longrightarrow> 0 \<le> minutes (py_int (duration (request a)))"
    by (simp add: minutes_nonneg py_int_nonneg)
  have "length ts = 6" "ts ! 0 = start_time a"
    "ts ! 1 - ts ! 0 = minutes d2" "ts ! 2 - ts ! 1 = minutes d3"
    "ts ! 3 - ts ! 2 = minutes (py_int (duration (request a)))"
    "ts ! 4 - ts ! 3 = minutes d5" "ts ! 5 - ts ! 4 = minutes d6"
    by (simp_all add: ts)
  moreover have "0 \<le> duration (request a) \<longrightarrow> sorted ts"
    using m r by (auto simp: ts)
  ultimately show ?thesis
    using d unfolding stage_gaps_def by auto
qed

lemma simulate_Inr:
  "simulate lib fs res g = Inr (res', g') \<Longrightarrow>
   \<exists>tss. length tss = length fs \<and>
     optimal_schedule res' = optimal_schedule res @ map (schedule_entry_of lib) fs \<and>
     simulation_timeline res' =
       simulation_timeline res @ map2 (timeline_entry_of lib) fs tss \<and>
     list_all2 stage_gaps fs tss \<and>
     g' = (\<lambda>i. g (i + 4 * length fs))"
proof (induction fs arbitrary: res g)
  case Nil
  then show ?case by simp
next
  case (Cons a fs)
  from Cons.prems obtain ts g1 where
    st: "stage_times a g = Inr (ts, g1)"
    and rest: "simulate lib fs
            \<lparr>optimal_schedule = optimal_schedule res @ [schedule_entry_of lib a],
             simulation_timeline = simulation_timeline res @ [timeline_entry_of lib a ts]\<rparr>
            g1 = Inr (res', g')"
    by (auto split: sum.splits)
  from stage_times_Inr [OF st] have g1: "g1 = (\<lambda>i. g (i + 4))" by blast
  from Cons.IH [OF rest] obtain tss where tss: "length tss = length fs"
    "optimal_schedule res' =
       (optimal_schedule res @ [schedule_entry_of lib a]) @ map (schedule_entry_of lib) fs"
    "simulation_timeline res' =
       (simulation_timeline res @ [timeline_entry_of lib a ts]) @
         map2 (timeline_entry_of lib) fs tss"
    "list_all2 stage_gaps fs tss"
    "g' = (\<lambda>i. g1 (i + 4 * length fs))"
    by auto
  show ?case
    by (rule exI [of _ "ts # tss"])
       (simp add: tss g1 stage_times_gaps [OF st] ac_simps)
qed

text \<open>
  C4. Whatever the random source, the simulation emits one timeline per assignment, the
  rendering of six stage times of which the first is the assignment's start time, the
  gaps are 4 to 6 minutes, 28 to 32 minutes, the truncated duration, 4 to 6 minutes and
  28 to 32 minutes, and which are in non-decreasing order when the duration is not
  negative.
\<close>

theorem timeline_stage_gaps:
  assumes "simulate lib final_schedule \<lparr>optimal_schedule = [], simulation_timeline = []\<rparr> g =
             Inr (res, g')"
  shows "\<exists>tss. length tss = length final_schedule \<and>
           simulation_timeline res = map2 (timeline_entry_of lib) final_schedule tss \<and>
           (\<forall>k<length final_schedule.
              length (tss ! k) = 6 \<and>
              tss ! k ! 0 = start_time (final_schedule ! k) \<and>
              tss ! k ! 1 - tss ! k ! 0 \<in> minutes ` {4..6} \<and>
              tss ! k ! 2 - tss ! k ! 1 \<in> minutes ` {28..32} \<and>
              tss ! k ! 3 - tss ! k ! 2 =
                minutes (py_int (duration (request (final_schedule ! k)))) \<and>
              tss ! k ! 4 - tss ! k ! 3 \<in> minutes ` {4..6} \<and>
              tss ! k ! 5 - tss ! k ! 4 \<in> minutes ` {28..32} \<and>
              (0 \<le> duration (request (final_schedule ! k)) \<longrightarrow> sorted (tss ! k)))"
proof -
  from simulate_Inr [OF assms] obtain tss where tss: "length tss = length final_schedule"
    "simulation_timeline res = map2 (timeline_entry_of lib) final_schedule tss"
    "list_all2 stage_gaps final_schedule tss"
    by auto
  from tss(3) have "\<forall>k<length final_schedule. stage_gaps (final_schedule ! k) (tss ! k)"
    by (simp add: list_all2_conv_all_nth)
  then show ?thesis using tss(1,2) unfolding stage_gaps_def by blast
qed

text \<open>
  C9. The two result arrays have the same length, and at every index the two entries
  carry the same request identifier and the same vehicle identifier, and the first stage
  of the timeline is rendered as the start time of the schedule entry is.
\<close>

theorem result_arrays_aligned:
  assumes "run_lcv_optimization lib rows lcv_column start_date g = Inr (res, g')"
  shows "length (optimal_schedule res) = length (simulation_timeline res) \<and>
         (\<forall>i<length (optimal_schedule res).
            Request_ID (optimal_schedule res ! i) = TL_Request_ID (simulation_timeline res ! i) \<and>
            Assigned_LCV_ID (optimal_schedule res ! i) = LCV_ID (simulation_timeline res ! i) \<and>
            Stage1_Enters_MGS (simulation_timeline res ! i) = Start_Time (optimal_schedule res ! i))"
proof -
  from assms obtain fs g1 where
    sim: "simulate lib fs \<lparr>optimal_schedule = [], simulation_timeline = []\<rparr> g1 = Inr (res, g')"
    by (auto simp: run_lcv_optimization_def split: sum.splits)
  from simulate_Inr [OF sim] obtain tss where tss: "length tss = length fs"
    "optimal_schedule res = map (schedule_entry_of lib) fs"
    "simulation_timeline res = map2 (timeline_entry_of lib) fs tss"
    "list_all2 stage_gaps fs tss"
    by auto
  have "Stage1_Enters_MGS (simulation_timeline res ! i) = Start_Time (optimal_schedule res ! i)"
    if "i < length fs" for i
  proof -
    from tss(4) that have "stage_gaps (fs ! i) (tss ! i)"
      by (simp add: list_all2_conv_all_nth)
    then have "tss ! i ! 0 = start_time (fs ! i)" by (simp add: stage_gaps_def)
    with that tss(1) show ?thesis
      by (simp add: tss(2,3) timeline_entry_of_def schedule_entry_of_def)
  qed
  then show ?thesis
    using tss(1) by (simp add: tss(2,3) timeline_entry_of_def schedule_entry_of_def)
qed

section \<open>Dependence on the random source\<close>



lemma returned_eq_Inr: "returned r = Inr x \<longleftrightarrow> (\<exists>g. r = Inr (x, g))"
  by (cases r) (auto simp: returned_def)















section \<open>The processing order\<close>




section \<open>Worked examples\<close>

lemma floor_41_2: "\<lfloor>41 / 2 :: rat\<rfloor> = 20"
  using floor_divide_of_int_eq [where ?'a = rat, of 41 2] by simp

lemmas eval_defs = floor_41_2
  assign_request_def initial_availability_def midnight_def add_timedelta_def
  datetime_min_def datetime_max_def minutes_def py_int_def uniform_0_5_minutes_def
  randint_def stage_times_def all_lcvs_of_def unique_def py_sorted_def
  example_request_def example_request2_def example_assignment_def example_assignment2_def
  example_stages_def zero_rng_def late_first_rng_def Let_def

lemma ex_fleet: "all_lcvs_of [IntId 2, IntId 1, IntId 2] = Inr [IntId 1, IntId 2]"
  by (simp add: eval_defs)

lemma ex_step:
  "assign_request [IntId 1, IntId 2] example_request
     (initial_availability [IntId 1, IntId 2] 738000, [], zero_rng) =
   Inr ((initial_availability [IntId 1, IntId 2] 738000)(IntId 1 \<mapsto> 63763230600000000),
        [example_assignment], zero_rng)"
  by (simp add: eval_defs)


lemma ex_loop2:
  "assign_requests [IntId 1, IntId 2] ([example_request] @ [example_request2])
     (initial_availability [IntId 1, IntId 2] 738000, [], zero_rng) =
   Inr ((initial_availability [IntId 1, IntId 2] 738000)
          (IntId 1 \<mapsto> 63763230600000000, IntId 2 \<mapsto> 63763230000000000),
        [example_assignment, example_assignment2], zero_rng)"
  by (simp add: eval_defs)

lemma ex_loop1:
  "assign_requests [IntId 1, IntId 2] [example_request]
     (initial_availability [IntId 1, IntId 2] 738000, [], zero_rng) =
   Inr ((initial_availability [IntId 1, IntId 2] 738000)(IntId 1 \<mapsto> 63763230600000000),
        [example_assignment], zero_rng)"
  by (simp add: eval_defs)

lemma ex_stage_times:
  "stage_times example_assignment zero_rng = Inr (example_stages, zero_rng)"
  by (simp add: eval_defs)

lemma ex_simulate:
  "simulate example_lib [example_assignment]
     \<lparr>optimal_schedule = [], simulation_timeline = []\<rparr> zero_rng =
   Inr (\<lparr>optimal_schedule = [schedule_entry_of example_lib example_assignment],
         simulation_timeline =
           [timeline_entry_of example_lib example_assignment example_stages]\<rparr>, zero_rng)"
  by (subst simulate.simps, subst ex_stage_times) simp

lemma ex_heuristic:
  "heuristic example_lib [example_request] [IntId 2, IntId 1, IntId 2] 738000 zero_rng =
   Inr ((initial_availability [IntId 1, IntId 2] 738000)(IntId 1 \<mapsto> 63763230600000000),
        [example_assignment], zero_rng)"
  unfolding heuristic_def
  by (subst ex_fleet) (simp add: example_lib_def, subst ex_step, simp)

lemma ex_run:
  "run_lcv_optimization example_lib [example_request] [IntId 2, IntId 1, IntId 2] 738000
     zero_rng =
   Inr (\<lparr>optimal_schedule = [schedule_entry_of example_lib example_assignment],
         simulation_timeline =
           [timeline_entry_of example_lib example_assignment example_stages]\<rparr>, zero_rng)"
  unfolding run_lcv_optimization_def
  by (subst ex_heuristic, simp, subst ex_stage_times) simp



theorem recorded_times_exact_witness:
  "assign_request [IntId 1, IntId 2] example_request
     (initial_availability [IntId 1, IntId 2] 738000, [], zero_rng) =
     Inr ((initial_availability [IntId 1, IntId 2] 738000)(IntId 1 \<mapsto> 63763230600000000),
          [example_assignment], zero_rng) \<and>
   (([example_assignment] = [] \<and>
     (initial_availability [IntId 1, IntId 2] 738000)(IntId 1 \<mapsto> 63763230600000000) =
       initial_availability [IntId 1, IntId 2] 738000) \<or>
    (\<exists>lcv available.
       lcv \<in> set [IntId 1, IntId 2] \<and>
       initial_availability [IntId 1, IntId 2] 738000 lcv = Some available \<and>
       [example_assignment] = [] @
         [\<lparr>request = example_request, assigned_lcv = lcv,
           start_time = max available (create_date example_request),
           completion_time = max available (create_date example_request)
                               + minutes (py_int (duration example_request))\<rparr>] \<and>
       (initial_availability [IntId 1, IntId 2] 738000)(IntId 1 \<mapsto> 63763230600000000) =
         (initial_availability [IntId 1, IntId 2] 738000)
           (lcv \<mapsto> max available (create_date example_request)
                     + minutes (py_int (duration example_request)))))"
  by (rule conjI, rule ex_step, rule recorded_times_exact [OF ex_step])

theorem tracker_frame_witness:
  "assign_request [IntId 1, IntId 2] example_request
     (initial_availability [IntId 1, IntId 2] 738000, [], zero_rng) =
     Inr ((initial_availability [IntId 1, IntId 2] 738000)(IntId 1 \<mapsto> 63763230600000000),
          [example_assignment], zero_rng) \<and>
   [example_assignment] = [] @ [example_assignment] \<and>
   IntId 2 \<noteq> assigned_lcv example_assignment \<and>
   ((initial_availability [IntId 1, IntId 2] 738000)(IntId 1 \<mapsto> 63763230600000000))
     (IntId 2) = initial_availability [IntId 1, IntId 2] 738000 (IntId 2)"
proof -
  have a: "[example_assignment] = [] @ [example_assignment]" by simp
  have b: "IntId 2 \<noteq> assigned_lcv example_assignment"
    by (simp add: example_assignment_def)
  from tracker_frame [OF ex_step]
  have "\<forall>a lcv. [example_assignment] = [] @ [a] \<longrightarrow> lcv \<noteq> assigned_lcv a \<longrightarrow>
       ((initial_availability [IntId 1, IntId 2] 738000)(IntId 1 \<mapsto> 63763230600000000)) lcv =
         initial_availability [IntId 1, IntId 2] 738000 lcv"
    by (rule conjunct2 [THEN conjunct2])
  with a b have
    "((initial_availability [IntId 1, IntId 2] 738000)(IntId 1 \<mapsto> 63763230600000000))
       (IntId 2) = initial_availability [IntId 1, IntId 2] 738000 (IntId 2)"
    by blast
  with ex_step a b show ?thesis by (intro conjI)
qed

lemma ex_durations: "\<forall>req\<in>set ([example_request] @ [example_request2]). 0 \<le> duration req"
  by (simp add: example_request_def example_request2_def)

theorem availability_monotone_and_last_witness:
  "assign_requests [IntId 1, IntId 2] ([example_request] @ [example_request2])
     (initial_availability [IntId 1, IntId 2] 738000, [], zero_rng) =
     Inr ((initial_availability [IntId 1, IntId 2] 738000)
            (IntId 1 \<mapsto> 63763230600000000, IntId 2 \<mapsto> 63763230000000000),
          [example_assignment, example_assignment2], zero_rng) \<and>
   0 \<le> duration example_request \<and> 0 \<le> duration example_request2 \<and>
   ((initial_availability [IntId 1, IntId 2] 738000)
      (IntId 1 \<mapsto> 63763230600000000, IntId 2 \<mapsto> 63763230000000000)) (IntId 2) =
     Some (completion_time example_assignment2) \<and>
   (\<exists>av1 fs1 g1 t1 t2.
      assign_requests [IntId 1, IntId 2] [example_request]
        (initial_availability [IntId 1, IntId 2] 738000, [], zero_rng) = Inr (av1, fs1, g1) \<and>
      av1 (IntId 2) = Some t1 \<and>
      ((initial_availability [IntId 1, IntId 2] 738000)
         (IntId 1 \<mapsto> 63763230600000000, IntId 2 \<mapsto> 63763230000000000)) (IntId 2) = Some t2 \<and>
      midnight 738000 \<le> t1 \<and> t1 \<le> t2)"
proof -
  have d: "0 \<le> duration example_request" "0 \<le> duration example_request2"
    by (simp_all add: example_request_def example_request2_def)
  note t = availability_monotone_and_last [OF ex_loop2 ex_durations]
  have m: "IntId 2 \<in> set [IntId 1, IntId 2]" by simp
  from t m have
    "((initial_availability [IntId 1, IntId 2] 738000)
        (IntId 1 \<mapsto> 63763230600000000, IntId 2 \<mapsto> 63763230000000000)) (IntId 2) =
     Some (if filter (\<lambda>a. assigned_lcv a = IntId 2) [example_assignment, example_assignment2] = []
           then midnight 738000
           else completion_time
                  (last (filter (\<lambda>a. assigned_lcv a = IntId 2)
                           [example_assignment, example_assignment2])))"
    by blast
  then have last: "((initial_availability [IntId 1, IntId 2] 738000)
      (IntId 1 \<mapsto> 63763230600000000, IntId 2 \<mapsto> 63763230000000000)) (IntId 2) =
     Some (completion_time example_assignment2)"
    by (simp add: example_assignment_def example_assignment2_def)
  from t m have mono: "\<exists>av1 fs1 g1 t1 t2.
      assign_requests [IntId 1, IntId 2] [example_request]
        (initial_availability [IntId 1, IntId 2] 738000, [], zero_rng) = Inr (av1, fs1, g1) \<and>
      av1 (IntId 2) = Some t1 \<and>
      ((initial_availability [IntId 1, IntId 2] 738000)
         (IntId 1 \<mapsto> 63763230600000000, IntId 2 \<mapsto> 63763230000000000)) (IntId 2) = Some t2 \<and>
      midnight 738000 \<le> t1 \<and> t1 \<le> t2"
    by blast
  from ex_loop2 d last mono show ?thesis by (intro conjI)
qed

theorem timeline_stage_gaps_witness:
  "simulate example_lib [example_assignment]
     \<lparr>optimal_schedule = [], simulation_timeline = []\<rparr> zero_rng =
     Inr (\<lparr>optimal_schedule = [schedule_entry_of example_lib example_assignment],
           simulation_timeline =
             [timeline_entry_of example_lib example_assignment example_stages]\<rparr>, zero_rng) \<and>
   (\<exists>tss. length tss = length [example_assignment] \<and>
      simulation_timeline
        \<lparr>optimal_schedule = [schedule_entry_of example_lib example_assignment],
         simulation_timeline =
           [timeline_entry_of example_lib example_assignment example_stages]\<rparr> =
        map2 (timeline_entry_of example_lib) [example_assignment] tss \<and>
      (\<forall>k<length [example_assignment].
         length (tss ! k) = 6 \<and>
         tss ! k ! 0 = start_time ([example_assignment] ! k) \<and>
         tss ! k ! 1 - tss ! k ! 0 \<in> minutes ` {4..6} \<and>
         tss ! k ! 2 - tss ! k ! 1 \<in> minutes ` {28..32} \<and>
         tss ! k ! 3 - tss ! k ! 2 =
           minutes (py_int (duration (request ([example_assignment] ! k)))) \<and>
         tss ! k ! 4 - tss ! k ! 3 \<in> minutes ` {4..6} \<and>
         tss ! k ! 5 - tss ! k ! 4 \<in> minutes ` {28..32} \<and>
         (0 \<le> duration (request ([example_assignment] ! k)) \<longrightarrow> sorted (tss ! k))))"
  by (rule conjI, rule ex_simulate, rule timeline_stage_gaps [OF ex_simulate])

theorem result_arrays_aligned_witness:
  "run_lcv_optimization example_lib [example_request] [IntId 2, IntId 1, IntId 2] 738000
     zero_rng =
     Inr (\<lparr>optimal_schedule = [schedule_entry_of example_lib example_assignment],
           simulation_timeline =
             [timeline_entry_of example_lib example_assignment example_stages]\<rparr>, zero_rng) \<and>
   Request_ID (schedule_entry_of example_lib example_assignment) =
     TL_Request_ID (timeline_entry_of example_lib example_assignment example_stages) \<and>
   Assigned_LCV_ID (schedule_entry_of example_lib example_assignment) =
     LCV_ID (timeline_entry_of example_lib example_assignment example_stages) \<and>
   Stage1_Enters_MGS (timeline_entry_of example_lib example_assignment example_stages) =
     Start_Time (schedule_entry_of example_lib example_assignment)"
proof -
  from result_arrays_aligned [OF ex_run]
  have "Request_ID (schedule_entry_of example_lib example_assignment) =
     TL_Request_ID (timeline_entry_of example_lib example_assignment example_stages) \<and>
   Assigned_LCV_ID (schedule_entry_of example_lib example_assignment) =
     LCV_ID (timeline_entry_of example_lib example_assignment example_stages) \<and>
   Stage1_Enters_MGS (timeline_entry_of example_lib example_assignment example_stages) =
     Start_Time (schedule_entry_of example_lib example_assignment)"
    by simp
  with ex_run show ?thesis by (intro conjI) simp_all
qed







lemmas run_defs =
  run_lcv_optimization_def heuristic_def returned_def schedule_entry_of_def
  timeline_entry_of_def sort_values_contract_def example_lib_def reversing_lib_def

lemma reversing_lib_contract:
  "sort_values_contract rows (sort_values_by_create_date reversing_lib rows)"
proof -
  have "sorted (map (\<lambda>r. - create_date r) (sort_key (\<lambda>r. - create_date r) rows))"
    by simp
  then have "sorted (rev (map create_date (sort_key (\<lambda>r. - create_date r) rows)))"
    by (simp add: sorted_wrt_rev sorted_wrt_map)
  then show ?thesis
    by (simp add: sort_values_contract_def reversing_lib_def rev_map)
qed


text \<open>
  C5. A fleet of one vehicle whose identifier is the integer 0 is not empty, yet the run
  on one request returns two empty arrays: the scan selects vehicle 0, and the truth
  test \<^verbatim>\<open>if best_lcv:\<close> of line 122 fails on it. With identifiers that pass the truth
  test the request is recorded (\<open>assign_request_records\<close>).
\<close>

theorem falsy_lcv_request_dropped:
  "all_lcvs_of [IntId 0] = Inr [IntId 0] \<and>
   returned (run_lcv_optimization example_lib [example_request] [IntId 0] 738000 zero_rng) =
     Inr \<lparr>optimal_schedule = [], simulation_timeline = []\<rparr>"
  by (simp add: run_defs eval_defs)

end
